theory Spec2Isabelle
  imports Main "HOL-Library.Word" "HOL-Library.Sublist"
begin

section \<open>The osinfo identifier of an inspected guest (lib/inspect-osinfo.c)\<close>

text \<open>
  The C function \<^verbatim>\<open>guestfs_impl_inspect_get_osinfo (g, root)\<close> asks the inspection
  API for the facts of one root and maps them to a libosinfo short identifier. It returns a
  freshly allocated string, or NULL. The embedding below keeps the shape of the C code:
  the two \<^verbatim>\<open>const\<close> tables are lists of records, the two \<^verbatim>\<open>for\<close> loops are
  recursive scans, every \<^verbatim>\<open>return NULL\<close> is the error value, and every call of an
  inspection accessor is appended to a log that is passed through the function.
\<close>

subsection \<open>C library functions\<close>

text \<open>
  \<^verbatim>\<open>strstr (haystack, needle)\<close> is used only as a truth value: it is non-NULL exactly
  when the needle occurs in the haystack as a contiguous run of characters. The comparison
  is byte-wise, hence case-sensitive, and the empty needle is found everywhere.
\<close>

fun strstr :: "string \<Rightarrow> string \<Rightarrow> bool" where
  "strstr [] needle = (needle = [])"
| "strstr (c # cs) needle = (prefix needle (c # cs) \<or> strstr cs needle)"

text \<open>The \<^verbatim>\<open>%d\<close> conversion: the decimal digits of a C int, with a minus sign.\<close>

definition digit_char :: "nat \<Rightarrow> char" where
  "digit_char d = ''0123456789'' ! d"

fun dec_nat :: "nat \<Rightarrow> string" where
  "dec_nat n = (if n < 10 then [digit_char n]
                else dec_nat (n div 10) @ [digit_char (n mod 10)])"

declare dec_nat.simps [simp del]

definition fmt_d :: "int \<Rightarrow> string" where
  "fmt_d n = (if n < 0 then CHR ''-'' # dec_nat (nat (- n)) else dec_nat (nat n))"

text \<open>
  The \<^verbatim>\<open>%02d\<close> conversion: as \<^verbatim>\<open>%d\<close>, padded with zeros on the left to a
  field of two characters. Only a single digit is shorter than the field.
\<close>

definition fmt_02d :: "int \<Rightarrow> string" where
  "fmt_02d n = (let s = fmt_d n in if length s < 2 then CHR ''0'' # s else s)"

text \<open>
  A format string is written in parsed form, as the list of its literal pieces and
  conversions: \<^verbatim>\<open>"%s%d.%02d"\<close> is \<open>[Conv_s, Conv_d, Lit ''.'', Conv_02d]\<close>.
  Arguments are consumed from left to right and arguments left over are ignored, as
  \<^verbatim>\<open>printf\<close> does. A conversion that meets no argument of its type is undefined in C;
  no call in the source does that, and the model stops the output there.
  \<^verbatim>\<open>safe_asprintf\<close> and \<^verbatim>\<open>safe_strdup\<close> abort the process when memory runs out,
  which is not modelled.
\<close>

datatype directive = Lit string | Conv_s | Conv_d | Conv_02d

datatype printf_arg = ArgStr string | ArgInt int

fun safe_asprintf :: "directive list \<Rightarrow> printf_arg list \<Rightarrow> string" where
  "safe_asprintf [] args = []"
| "safe_asprintf (Lit s # fmt) args = s @ safe_asprintf fmt args"
| "safe_asprintf (Conv_s # fmt) (ArgStr s # args) = s @ safe_asprintf fmt args"
| "safe_asprintf (Conv_d # fmt) (ArgInt n # args) = fmt_d n @ safe_asprintf fmt args"
| "safe_asprintf (Conv_02d # fmt) (ArgInt n # args) = fmt_02d n @ safe_asprintf fmt args"
| "safe_asprintf (_ # fmt) args = []"

subsection \<open>The inspection API seen from this function\<close>

text \<open>
  What the accessors of the inspection API answer for the handle and root at hand. A string
  accessor returns a string or NULL (\<open>None\<close>); the version accessors return a C
  \<^verbatim>\<open>int\<close>. \<^verbatim>\<open>guestfs_int_parse_unsigned_int\<close> is declared in
  \<^verbatim>\<open>guestfs-internal.h\<close> and defined outside this file, so it is a field too: it maps
  the build id string to a C \<^verbatim>\<open>int\<close>, which the caller compares with \<open>-1\<close>.
  A C \<^verbatim>\<open>int\<close> is a 32-bit word read as a signed number (\<open>sint\<close>); the function
  only compares and prints these numbers, so nothing here can wrap around.
\<close>

record facts =
  inspect_type :: "string option"
  inspect_distro :: "string option"
  inspect_major_version :: "32 word"
  inspect_minor_version :: "32 word"
  inspect_product_name :: "string option"
  inspect_product_variant :: "string option"
  inspect_build_id :: "string option"
  parse_unsigned_int :: "string \<Rightarrow> 32 word"

text \<open>The calls the function makes on the handle, in the order it makes them.\<close>

datatype call =
    Get_type | Get_distro | Get_major_version | Get_minor_version
  | Get_product_name | Get_product_variant | Get_build_id | Parse_unsigned_int

type_synonym handle = "call list"

definition guestfs_inspect_get_type :: "facts \<Rightarrow> handle \<Rightarrow> string option \<times> handle" where
  "guestfs_inspect_get_type f g = (inspect_type f, g @ [Get_type])"

definition guestfs_inspect_get_distro :: "facts \<Rightarrow> handle \<Rightarrow> string option \<times> handle" where
  "guestfs_inspect_get_distro f g = (inspect_distro f, g @ [Get_distro])"

definition guestfs_inspect_get_major_version :: "facts \<Rightarrow> handle \<Rightarrow> int \<times> handle" where
  "guestfs_inspect_get_major_version f g = (sint (inspect_major_version f), g @ [Get_major_version])"

definition guestfs_inspect_get_minor_version :: "facts \<Rightarrow> handle \<Rightarrow> int \<times> handle" where
  "guestfs_inspect_get_minor_version f g = (sint (inspect_minor_version f), g @ [Get_minor_version])"

definition guestfs_inspect_get_product_name :: "facts \<Rightarrow> handle \<Rightarrow> string option \<times> handle" where
  "guestfs_inspect_get_product_name f g = (inspect_product_name f, g @ [Get_product_name])"

definition guestfs_inspect_get_product_variant :: "facts \<Rightarrow> handle \<Rightarrow> string option \<times> handle" where
  "guestfs_inspect_get_product_variant f g = (inspect_product_variant f, g @ [Get_product_variant])"

definition guestfs_inspect_get_build_id :: "facts \<Rightarrow> handle \<Rightarrow> string option \<times> handle" where
  "guestfs_inspect_get_build_id f g = (inspect_build_id f, g @ [Get_build_id])"

definition guestfs_int_parse_unsigned_int :: "facts \<Rightarrow> string \<Rightarrow> handle \<Rightarrow> int \<times> handle" where
  "guestfs_int_parse_unsigned_int f str g = (sint (parse_unsigned_int f str), g @ [Parse_unsigned_int])"

subsection \<open>The Linux table and its scan\<close>

record linux_rule =
  lr_distro :: string
  lr_fmt :: "directive list option"  \<comment> \<open>\<open>None\<close> (NULL) = return distro name only\<close>
  lr_min_major :: int                \<comment> \<open>\<open>-1\<close> = any major version\<close>

definition linux_entry :: "string \<Rightarrow> directive list option \<Rightarrow> int \<Rightarrow> linux_rule" where
  "linux_entry d f m = \<lparr>lr_distro = d, lr_fmt = f, lr_min_major = m\<rparr>"

text \<open>The table, without its terminating \<^verbatim>\<open>{ NULL }\<close> entry: the list ends there.\<close>

definition linux_map :: "linux_rule list" where
  "linux_map =
   [ linux_entry ''centos''    (Some [Conv_s, Conv_d])                        8,
     linux_entry ''centos''    (Some [Conv_s, Conv_d, Lit ''.0''])            7,
     linux_entry ''centos''    (Some [Conv_s, Conv_d, Lit ''.'', Conv_d])     6,
     linux_entry ''circle''    (Some [Conv_s, Conv_d])                        8,
     linux_entry ''rocky''     (Some [Conv_s, Conv_d])                        8,
     linux_entry ''debian''    (Some [Conv_s, Conv_d])                        4,
     linux_entry ''fedora''    (Some [Conv_s, Conv_d])                      (-1),
     linux_entry ''mageia''    (Some [Conv_s, Conv_d])                      (-1),
     linux_entry ''ubuntu''    (Some [Conv_s, Conv_d, Lit ''.'', Conv_02d]) (-1),
     linux_entry ''archlinux'' None                                         (-1),
     linux_entry ''gentoo''    None                                         (-1),
     linux_entry ''voidlinux'' None                                         (-1),
     linux_entry ''altlinux''  (Some [Conv_s, Conv_d, Lit ''.'', Conv_d])     8,
     linux_entry ''altlinux''  (Some [Conv_s, Conv_d, Lit ''.'', Conv_d])   (-1) ]"

text \<open>The condition of the \<^verbatim>\<open>if\<close> in the loop body, and what the body returns.\<close>

definition linux_rule_matches :: "linux_rule \<Rightarrow> string \<Rightarrow> int \<Rightarrow> bool" where
  "linux_rule_matches r distro major \<longleftrightarrow>
     distro = lr_distro r \<and> (lr_min_major r = - 1 \<or> major \<ge> lr_min_major r)"

definition linux_rule_result :: "linux_rule \<Rightarrow> string \<Rightarrow> int \<Rightarrow> int \<Rightarrow> string" where
  "linux_rule_result r distro major minor =
     (case lr_fmt r of
        Some fmt \<Rightarrow> safe_asprintf fmt [ArgStr distro, ArgInt major, ArgInt minor]
      | None \<Rightarrow> distro)"

text \<open>
  The loop \<^verbatim>\<open>for (i = 0; linux_map[i].distro; ++i)\<close>: \<open>Some\<close> is the value returned
  from inside the loop, \<open>None\<close> means the loop ran to the end of the table.
\<close>

fun linux_scan :: "linux_rule list \<Rightarrow> string \<Rightarrow> int \<Rightarrow> int \<Rightarrow> string option" where
  "linux_scan [] distro major minor = None"
| "linux_scan (r # rs) distro major minor =
     (if linux_rule_matches r distro major
      then Some (linux_rule_result r distro major minor)
      else linux_scan rs distro major minor)"

text \<open>
  The body of \<^verbatim>\<open>if (STREQ (type, "linux"))\<close>. \<open>None\<close> means that no
  \<^verbatim>\<open>return\<close> was reached, so control goes on to the last statement of the function.
\<close>

definition linux_branch :: "string \<Rightarrow> int \<Rightarrow> int \<Rightarrow> string option" where
  "linux_branch distro major minor =
     (case linux_scan linux_map distro major minor of
        Some s \<Rightarrow> Some s
      | None \<Rightarrow>
          if distro = ''sles'' then
            (let base = (if major \<ge> 15 then ''sle'' else ''sles'') in
             if minor = 0
             then Some (safe_asprintf [Conv_s, Conv_d] [ArgStr base, ArgInt major])
             else Some (safe_asprintf [Conv_s, Conv_d, Lit ''sp'', Conv_d]
                          [ArgStr base, ArgInt major, ArgInt minor]))
          else if distro \<noteq> ''unknown'' \<and> (major > 0 \<or> minor > 0) then
            Some (safe_asprintf [Conv_s, Conv_d, Lit ''.'', Conv_d]
                    [ArgStr distro, ArgInt major, ArgInt minor])
          else None)"

subsection \<open>The Windows table and its scan\<close>

record win_rule =
  wr_major :: int
  wr_minor :: int
  wr_id :: string
  wr_variant_contains :: "string option"  \<comment> \<open>\<open>None\<close> (NULL) = any\<close>
  wr_name_contains :: "string option"     \<comment> \<open>\<open>None\<close> (NULL) = any\<close>

definition win_entry :: "int \<Rightarrow> int \<Rightarrow> string \<Rightarrow> string option \<Rightarrow> string option \<Rightarrow> win_rule" where
  "win_entry ma mi i v n =
     \<lparr>wr_major = ma, wr_minor = mi, wr_id = i, wr_variant_contains = v, wr_name_contains = n\<rparr>"

text \<open>The table, in the order of the source, without its terminating \<^verbatim>\<open>{ 0 }\<close> entry.\<close>

definition win_map :: "win_rule list" where
  "win_map =
   [ win_entry 5  1 ''winxp''     None              None,
     win_entry 5  2 ''winxp''     None              (Some ''XP''),
     win_entry 5  2 ''win2k3r2''  None              (Some ''R2''),
     win_entry 5  2 ''win2k3''    None              None,
     win_entry 6  0 ''winvista''  None              None,
     win_entry 6  0 ''win2k8''    (Some ''Server'') None,
     win_entry 6  1 ''win7''      None              None,
     win_entry 6  1 ''win2k8r2''  (Some ''Server'') None,
     win_entry 6  2 ''win8''      None              None,
     win_entry 6  2 ''win2k12''   (Some ''Server'') None,
     win_entry 6  3 ''win8.1''    None              None,
     win_entry 6  3 ''win2k12r2'' (Some ''Server'') None,
     win_entry 10 0 ''win2k25''   (Some ''Server'') (Some ''2025''),
     win_entry 10 0 ''win2k22''   (Some ''Server'') (Some ''2022''),
     win_entry 10 0 ''win2k19''   (Some ''Server'') (Some ''2019''),
     win_entry 10 0 ''win2k16''   (Some ''Server'') None ]"

definition win_rule_matches :: "win_rule \<Rightarrow> int \<Rightarrow> int \<Rightarrow> string \<Rightarrow> string \<Rightarrow> bool" where
  "win_rule_matches r major minor product_variant product_name \<longleftrightarrow>
     major = wr_major r \<and> minor = wr_minor r \<and>
     (case wr_variant_contains r of None \<Rightarrow> True | Some v \<Rightarrow> strstr product_variant v) \<and>
     (case wr_name_contains r of None \<Rightarrow> True | Some n \<Rightarrow> strstr product_name n)"

text \<open>The loop \<^verbatim>\<open>for (i = 0; win_map[i].id; ++i)\<close>, read as \<open>linux_scan\<close> is.\<close>

fun win_scan :: "win_rule list \<Rightarrow> int \<Rightarrow> int \<Rightarrow> string \<Rightarrow> string \<Rightarrow> string option" where
  "win_scan [] major minor product_variant product_name = None"
| "win_scan (r # rs) major minor product_variant product_name =
     (if win_rule_matches r major minor product_variant product_name
      then Some (wr_id r)
      else win_scan rs major minor product_variant product_name)"

subsection \<open>The function\<close>

text \<open>The only failure: the function returns NULL because a fact it needs is missing.\<close>

datatype error = MissingFacts

text \<open>
  The body of \<^verbatim>\<open>else if (STREQ (type, "windows"))\<close>, together with the final
  \<^verbatim>\<open>return safe_strdup (g, "unknown")\<close> that it falls through to.
\<close>

definition windows_branch :: "facts \<Rightarrow> int \<Rightarrow> int \<Rightarrow> handle \<Rightarrow> (error + string) \<times> handle" where
  "windows_branch f major minor g4 =
     (let (product_name, g5) = guestfs_inspect_get_product_name f g4 in
      case product_name of
        None \<Rightarrow> (Inl MissingFacts, g5)
      | Some product_name \<Rightarrow>
     (let (product_variant, g6) = guestfs_inspect_get_product_variant f g5 in
      case product_variant of
        None \<Rightarrow> (Inl MissingFacts, g6)
      | Some product_variant \<Rightarrow>
     (case win_scan win_map major minor product_variant product_name of
        Some ident \<Rightarrow> (Inr ident, g6)
      | None \<Rightarrow>
          if major = 10 \<and> minor = 0 \<and> \<not> strstr product_variant ''Server'' then
            (let (build_id_str, g7) = guestfs_inspect_get_build_id f g6 in
             case build_id_str of
               None \<Rightarrow> (Inl MissingFacts, g7)
             | Some build_id_str \<Rightarrow>
            (let (build_id, g8) = guestfs_int_parse_unsigned_int f build_id_str g7 in
             if build_id = - 1 then (Inl MissingFacts, g8)
             else if build_id \<ge> 22000 then (Inr ''win11'', g8)
             else (Inr ''win10'', g8)))
          else (Inr ''unknown'', g6))))"

definition guestfs_impl_inspect_get_osinfo :: "facts \<Rightarrow> handle \<Rightarrow> (error + string) \<times> handle" where
  "guestfs_impl_inspect_get_osinfo f g0 =
     (let (type, g1) = guestfs_inspect_get_type f g0;
          (distro, g2) = guestfs_inspect_get_distro f g1 in
      case type of
        None \<Rightarrow> (Inl MissingFacts, g2)
      | Some type \<Rightarrow>
     (case distro of
        None \<Rightarrow> (Inl MissingFacts, g2)
      | Some distro \<Rightarrow>
     (let (major, g3) = guestfs_inspect_get_major_version f g2;
          (minor, g4) = guestfs_inspect_get_minor_version f g3 in
      if type = ''linux'' then
        (case linux_branch distro major minor of
           Some s \<Rightarrow> (Inr s, g4)
         | None \<Rightarrow> (Inr ''unknown'', g4))
      else if type = ''freebsd'' \<or> type = ''netbsd'' \<or> type = ''openbsd'' then
        (Inr (safe_asprintf [Conv_s, Conv_d, Lit ''.'', Conv_d]
                [ArgStr distro, ArgInt major, ArgInt minor]), g4)
      else if type = ''dos'' then
        (if distro = ''msdos'' then (Inr ''msdos6.22'', g4) else (Inr ''unknown'', g4))
      else if type = ''windows'' then windows_branch f major minor g4
      else (Inr ''unknown'', g4))))"

subsection \<open>Example inputs\<close>

text \<open>
  Fact bundles for the worked examples. \<open>example_parse\<close> stands in for the parser in
  them: it knows two build numbers and answers \<open>-1\<close>, the parser's failure value, for
  every other string.
\<close>

definition example_parse :: "string \<Rightarrow> 32 word" where
  "example_parse s = (if s = ''19045'' then 19045 else if s = ''26100'' then 26100 else - 1)"

definition linux_facts :: "string \<Rightarrow> 32 word \<Rightarrow> 32 word \<Rightarrow> facts" where
  "linux_facts distro major minor =
     \<lparr>inspect_type = Some ''linux'', inspect_distro = Some distro,
      inspect_major_version = major, inspect_minor_version = minor,
      inspect_product_name = None, inspect_product_variant = None,
      inspect_build_id = None, parse_unsigned_int = example_parse\<rparr>"

definition windows_facts :: "32 word \<Rightarrow> 32 word \<Rightarrow> string \<Rightarrow> string \<Rightarrow> string option \<Rightarrow> facts" where
  "windows_facts major minor name variant build =
     \<lparr>inspect_type = Some ''windows'', inspect_distro = Some ''windows'',
      inspect_major_version = major, inspect_minor_version = minor,
      inspect_product_name = Some name, inspect_product_variant = Some variant,
      inspect_build_id = build, parse_unsigned_int = example_parse\<rparr>"

section \<open>Properties\<close>

subsection \<open>The library functions\<close>

text \<open>\<open>strstr\<close> finds exactly the contiguous sublists.\<close>

lemma strstr_sublist: "strstr haystack needle \<longleftrightarrow> sublist needle haystack"
proof (induction haystack)
  case Nil
  show ?case by auto
next
  case (Cons c cs)
  show ?case
  proof (cases needle)
    case Nil
    then show ?thesis by simp
  next
    case (Cons n ns)
    with Cons.IH show ?thesis by (simp add: sublist_Cons_right)
  qed
qed

subsection \<open>The function, branch by branch\<close>

lemmas accessor_defs =
  guestfs_inspect_get_type_def guestfs_inspect_get_distro_def
  guestfs_inspect_get_major_version_def guestfs_inspect_get_minor_version_def
  guestfs_inspect_get_product_name_def guestfs_inspect_get_product_variant_def
  guestfs_inspect_get_build_id_def guestfs_int_parse_unsigned_int_def

lemma osinfo_no_type:
  "inspect_type f = None \<Longrightarrow>
   guestfs_impl_inspect_get_osinfo f g = (Inl MissingFacts, g @ [Get_type, Get_distro])"
  by (simp add: guestfs_impl_inspect_get_osinfo_def accessor_defs)

lemma osinfo_no_distro:
  "inspect_distro f = None \<Longrightarrow>
   guestfs_impl_inspect_get_osinfo f g = (Inl MissingFacts, g @ [Get_type, Get_distro])"
  by (simp add: guestfs_impl_inspect_get_osinfo_def accessor_defs split: option.split)

lemma osinfo_linux:
  "inspect_type f = Some ''linux'' \<Longrightarrow> inspect_distro f = Some distro \<Longrightarrow>
   guestfs_impl_inspect_get_osinfo f g =
     (case linux_branch distro (sint (inspect_major_version f)) (sint (inspect_minor_version f)) of
        Some s \<Rightarrow> Inr s | None \<Rightarrow> Inr ''unknown'',
      g @ [Get_type, Get_distro, Get_major_version, Get_minor_version])"
  by (simp add: guestfs_impl_inspect_get_osinfo_def accessor_defs split: option.split)

lemma osinfo_windows:
  "inspect_type f = Some ''windows'' \<Longrightarrow> inspect_distro f = Some distro \<Longrightarrow>
   guestfs_impl_inspect_get_osinfo f g =
     windows_branch f (sint (inspect_major_version f)) (sint (inspect_minor_version f))
       (g @ [Get_type, Get_distro, Get_major_version, Get_minor_version])"
  by (simp add: guestfs_impl_inspect_get_osinfo_def accessor_defs)

lemma windows_branch_facts:
  "inspect_product_name f = Some name \<Longrightarrow> inspect_product_variant f = Some variant \<Longrightarrow>
   windows_branch f major minor g =
     (case win_scan win_map major minor variant name of
        Some ident \<Rightarrow> (Inr ident, g @ [Get_product_name, Get_product_variant])
      | None \<Rightarrow>
          if major = 10 \<and> minor = 0 \<and> \<not> strstr variant ''Server'' then
            (case inspect_build_id f of
               None \<Rightarrow> (Inl MissingFacts, g @ [Get_product_name, Get_product_variant, Get_build_id])
             | Some s \<Rightarrow>
                 (if sint (parse_unsigned_int f s) = - 1 then Inl MissingFacts
                  else if sint (parse_unsigned_int f s) \<ge> 22000 then Inr ''win11''
                  else Inr ''win10'',
                  g @ [Get_product_name, Get_product_variant, Get_build_id, Parse_unsigned_int]))
          else (Inr ''unknown'', g @ [Get_product_name, Get_product_variant]))"
  by (simp add: windows_branch_def accessor_defs split: option.split)

lemma win_scan_5_2:
  "win_scan win_map 5 2 variant name =
     Some (if strstr name ''XP'' then ''winxp''
           else if strstr name ''R2'' then ''win2k3r2'' else ''win2k3'')"
  by (simp add: win_map_def win_entry_def win_rule_matches_def)

lemma win_scan_10_0:
  "win_scan win_map 10 0 variant name =
     (if strstr variant ''Server'' then
        Some (if strstr name ''2025'' then ''win2k25''
              else if strstr name ''2022'' then ''win2k22''
              else if strstr name ''2019'' then ''win2k19'' else ''win2k16'')
      else None)"
  by (simp add: win_map_def win_entry_def win_rule_matches_def)

lemma win_scan_6:
  "win_scan win_map 6 0 variant name = Some ''winvista''"
  "win_scan win_map 6 1 variant name = Some ''win7''"
  "win_scan win_map 6 2 variant name = Some ''win8''"
  "win_scan win_map 6 3 variant name = Some ''win8.1''"
  by (simp_all add: win_map_def win_entry_def win_rule_matches_def)

lemma linux_scan_first:
  "i < length rs \<Longrightarrow> linux_rule_matches (rs ! i) distro major \<Longrightarrow>
   \<forall>r \<in> set (take i rs). \<not> linux_rule_matches r distro major \<Longrightarrow>
   linux_scan rs distro major minor = Some (linux_rule_result (rs ! i) distro major minor)"
proof (induction rs arbitrary: i)
  case Nil
  then show ?case by simp
next
  case (Cons r rs)
  show ?case
  proof (cases i)
    case 0
    with Cons.prems show ?thesis by simp
  next
    case (Suc k)
    with Cons.prems have "\<not> linux_rule_matches r distro major" by simp
    moreover from Suc Cons.prems
    have "linux_scan rs distro major minor = Some (linux_rule_result (rs ! k) distro major minor)"
      by (intro Cons.IH) simp_all
    ultimately show ?thesis using Suc by simp
  qed
qed

lemma linux_scan_none:
  "linux_scan rs distro major minor = None \<longleftrightarrow>
   (\<forall>r \<in> set rs. \<not> linux_rule_matches r distro major)"
  by (induction rs) simp_all

lemma linux_scan_not_in_table:
  "distro \<notin> lr_distro ` set linux_map \<Longrightarrow> linux_scan linux_map distro major minor = None"
  by (auto simp add: linux_scan_none linux_rule_matches_def)

lemma linux_scan_sles: "linux_scan linux_map ''sles'' major minor = None"
  by (simp add: linux_map_def linux_entry_def linux_rule_matches_def)

lemma linux_scan_centos_7:
  "linux_scan linux_map ''centos'' 7 minor = Some ''centos7.0''"
  by (simp add: linux_map_def linux_entry_def linux_rule_matches_def linux_rule_result_def
      fmt_d_def dec_nat.simps digit_char_def)

subsection \<open>The log only grows\<close>

lemma windows_branch_log:
  "windows_branch f major minor g =
     (fst (windows_branch f major minor []), g @ snd (windows_branch f major minor []))"
proof (cases "inspect_product_name f")
  case None
  then show ?thesis by (simp add: windows_branch_def accessor_defs)
next
  case name: (Some name)
  show ?thesis
  proof (cases "inspect_product_variant f")
    case None
    with name show ?thesis by (simp add: windows_branch_def accessor_defs)
  next
    case variant: (Some variant)
    show ?thesis
      unfolding windows_branch_facts [OF name variant]
      by (cases "win_scan win_map major minor variant name"; cases "inspect_build_id f") simp_all
  qed
qed

lemma osinfo_log:
  "guestfs_impl_inspect_get_osinfo f g =
     (fst (guestfs_impl_inspect_get_osinfo f []), g @ snd (guestfs_impl_inspect_get_osinfo f []))"
proof (cases "inspect_type f")
  case None
  then show ?thesis by (simp add: osinfo_no_type)
next
  case type: (Some type)
  show ?thesis
  proof (cases "inspect_distro f")
    case None
    then show ?thesis by (simp add: osinfo_no_distro)
  next
    case distro: (Some distro)
    show ?thesis
    proof (cases "type = ''windows''")
      case True
      with type have w: "inspect_type f = Some ''windows''" by simp
      show ?thesis
        unfolding osinfo_windows [OF w distro]
        using windows_branch_log [of f _ _ "g @ [Get_type, Get_distro, Get_major_version, Get_minor_version]"]
              windows_branch_log [of f _ _ "[Get_type, Get_distro, Get_major_version, Get_minor_version]"]
        by simp
    next
      case False
      with type distro show ?thesis
        by (simp add: guestfs_impl_inspect_get_osinfo_def accessor_defs split: option.split)
    qed
  qed
qed

lemma osinfo_other:
  assumes "inspect_type f = Some type" "inspect_distro f = Some distro" "type \<noteq> ''windows''"
  shows "guestfs_impl_inspect_get_osinfo f g =
     (if type = ''linux'' then
        (case linux_branch distro (sint (inspect_major_version f)) (sint (inspect_minor_version f)) of
           Some s \<Rightarrow> Inr s | None \<Rightarrow> Inr ''unknown'')
      else if type = ''freebsd'' \<or> type = ''netbsd'' \<or> type = ''openbsd'' then
        Inr (safe_asprintf [Conv_s, Conv_d, Lit ''.'', Conv_d]
               [ArgStr distro, ArgInt (sint (inspect_major_version f)),
                ArgInt (sint (inspect_minor_version f))])
      else if type = ''dos'' \<and> distro = ''msdos'' then Inr ''msdos6.22''
      else Inr ''unknown'',
      g @ [Get_type, Get_distro, Get_major_version, Get_minor_version])"
  using assms
  by (simp add: guestfs_impl_inspect_get_osinfo_def accessor_defs split: option.split)

subsection \<open>Indices and prefixes of a table\<close>

lemma all_less_take:
  "i \<le> length xs \<Longrightarrow> (\<forall>j<i. P (xs ! j)) \<longleftrightarrow> (\<forall>x \<in> set (take i xs). P x)"
proof -
  assume "i \<le> length xs"
  then have "set (take i xs) = (!) xs ` {0..<i}"
    by (simp add: nth_image)
  then show ?thesis by auto
qed

subsection \<open>Claims\<close>

text \<open>
  C1, as stated, fails. At version 5.2 the \<open>XP\<close> rule stands before the \<open>R2\<close> rule,
  so a product name that contains both resolves to \<open>winxp\<close>; and at version 6.0 the rule
  without conditions stands before the \<open>Server\<close> rule, so a server resolves to the client
  identifier \<open>winvista\<close>.
\<close>

theorem win_rule_order_counterexample:
  "fst (guestfs_impl_inspect_get_osinfo (windows_facts 5 2 ''Windows XP R2'' '''' None) []) = Inr ''winxp'' \<and>
   strstr ''Windows XP R2'' ''R2'' \<and>
   fst (guestfs_impl_inspect_get_osinfo (windows_facts 6 0 ''Windows Server 2008'' ''Server'' None) []) = Inr ''winvista'' \<and>
   strstr ''Server'' ''Server''"
  by (simp add: osinfo_windows [of _ "''windows''"] windows_branch_facts [of _ "''Windows XP R2''" "''''"]
       windows_branch_facts [of _ "''Windows Server 2008''" "''Server''"] win_scan_5_2 win_scan_6 windows_facts_def)

text \<open>
  What the table gives at 6.0, 6.1, 6.2 and 6.3 for every product variant and name: the
  first rule of each pair has no condition, so the \<open>Server\<close> rule after it is never
  reached.
\<close>

lemma win_6_server_rules_unreachable:
  assumes "inspect_type f = Some ''windows''" "inspect_distro f = Some distro"
    "inspect_product_name f = Some name" "inspect_product_variant f = Some variant"
    "sint (inspect_major_version f) = 6" "sint (inspect_minor_version f) = mi"
    "mi \<in> {0, 1, 2, 3}"
  shows "fst (guestfs_impl_inspect_get_osinfo f g) =
           Inr (if mi = 0 then ''winvista'' else if mi = 1 then ''win7''
                else if mi = 2 then ''win8'' else ''win8.1'')"
  using assms(5-7)
  by (auto simp add: osinfo_windows [OF assms(1,2)] windows_branch_facts [OF assms(3,4)] win_scan_6)

text \<open>
  C1 (amended). For every windows fact bundle with all four string facts present, version
  5.2 and a product name that contains \<open>R2\<close>: the function returns \<open>winxp\<close> when the
  name also contains \<open>XP\<close> and \<open>win2k3r2\<close> otherwise, and never the generic
  \<open>win2k3\<close>.
\<close>

theorem win_5_2_r2_never_generic:
  assumes "inspect_type f = Some ''windows''" "inspect_distro f = Some distro"
    "inspect_product_name f = Some name" "inspect_product_variant f = Some variant"
    "sint (inspect_major_version f) = 5" "sint (inspect_minor_version f) = 2"
    "strstr name ''R2''"
  shows "fst (guestfs_impl_inspect_get_osinfo f g) =
           Inr (if strstr name ''XP'' then ''winxp'' else ''win2k3r2'') \<and>
         fst (guestfs_impl_inspect_get_osinfo f g) \<noteq> Inr ''win2k3''"
  using assms(5-7)
  by (simp add: osinfo_windows [OF assms(1,2)] windows_branch_facts [OF assms(3,4)] win_scan_5_2)

theorem win_5_2_r2_never_generic_witness:
  "fst (guestfs_impl_inspect_get_osinfo (windows_facts 5 2 ''Windows Server 2003 R2'' '''' None) []) = Inr ''win2k3r2''"
  using win_5_2_r2_never_generic [of "windows_facts 5 2 ''Windows Server 2003 R2'' '''' None" "''windows''" "''Windows Server 2003 R2''" "''''" "[]"]
  by (simp add: windows_facts_def)

text \<open>
  C2. For every windows fact bundle with version 10.0 and a product variant that does not
  contain \<open>Server\<close>: no rule of the Windows table matches, the build id accessor is called,
  and the function returns NULL when the build id is NULL or the parser answers \<open>-1\<close>,
  \<open>win11\<close> when the parsed build id is at least 22000, and \<open>win10\<close> otherwise.
\<close>

theorem win10_client_build_id:
  assumes "inspect_type f = Some ''windows''" "inspect_distro f = Some distro"
    "inspect_product_name f = Some name" "inspect_product_variant f = Some variant"
    "sint (inspect_major_version f) = 10" "sint (inspect_minor_version f) = 0"
    "\<not> strstr variant ''Server''"
  shows "win_scan win_map 10 0 variant name = None \<and>
         Get_build_id \<in> set (snd (guestfs_impl_inspect_get_osinfo f [])) \<and>
         fst (guestfs_impl_inspect_get_osinfo f g) =
           (case inspect_build_id f of
              None \<Rightarrow> Inl MissingFacts
            | Some s \<Rightarrow>
                if sint (parse_unsigned_int f s) = - 1 then Inl MissingFacts
                else if sint (parse_unsigned_int f s) \<ge> 22000 then Inr ''win11''
                else Inr ''win10'')"
  using assms(5-7)
  by (simp add: osinfo_windows [OF assms(1,2)] windows_branch_facts [OF assms(3,4)] win_scan_10_0
      split: option.split)

theorem win10_client_build_id_witness:
  "fst (guestfs_impl_inspect_get_osinfo (windows_facts 10 0 ''Windows 10 Pro'' ''Client'' (Some ''19045'')) []) = Inr ''win10'' \<and>
   fst (guestfs_impl_inspect_get_osinfo (windows_facts 10 0 ''Windows 10 Pro'' ''Client'' (Some ''26100'')) []) = Inr ''win11'' \<and>
   fst (guestfs_impl_inspect_get_osinfo (windows_facts 10 0 ''Windows 10 Pro'' ''Client'' (Some ''1904x'')) []) = Inl MissingFacts \<and>
   fst (guestfs_impl_inspect_get_osinfo (windows_facts 10 0 ''Windows 10 Pro'' ''Client'' None) []) = Inl MissingFacts"
  using win10_client_build_id [of "windows_facts 10 0 ''Windows 10 Pro'' ''Client'' (Some ''19045'')" "''windows''" "''Windows 10 Pro''" "''Client''" "[]"]
        win10_client_build_id [of "windows_facts 10 0 ''Windows 10 Pro'' ''Client'' (Some ''26100'')" "''windows''" "''Windows 10 Pro''" "''Client''" "[]"]
        win10_client_build_id [of "windows_facts 10 0 ''Windows 10 Pro'' ''Client'' (Some ''1904x'')" "''windows''" "''Windows 10 Pro''" "''Client''" "[]"]
        win10_client_build_id [of "windows_facts 10 0 ''Windows 10 Pro'' ''Client'' None" "''windows''" "''Windows 10 Pro''" "''Client''" "[]"]
  by (simp add: windows_facts_def example_parse_def)

text \<open>
  C3. If the type or the distro accessor returns NULL, or the type is \<open>windows\<close> and the
  product name or the product variant accessor returns NULL, the function returns NULL
  (\<open>MissingFacts\<close>); in particular it does not return \<open>unknown\<close>.
\<close>

theorem missing_facts_fail:
  assumes "inspect_type f = None \<or> inspect_distro f = None \<or>
           (inspect_type f = Some ''windows'' \<and>
            (inspect_product_name f = None \<or> inspect_product_variant f = None))"
  shows "fst (guestfs_impl_inspect_get_osinfo f g) = Inl MissingFacts \<and>
         fst (guestfs_impl_inspect_get_osinfo f g) \<noteq> Inr ''unknown''"
proof -
  have "fst (guestfs_impl_inspect_get_osinfo f g) = Inl MissingFacts"
  proof (cases "inspect_type f = None \<or> inspect_distro f = None")
    case True
    then show ?thesis using osinfo_no_type osinfo_no_distro by auto
  next
    case False
    with assms obtain distro where w: "inspect_type f = Some ''windows''"
      "inspect_distro f = Some distro"
      "inspect_product_name f = None \<or> inspect_product_variant f = None"
      by auto
    from w(3) have "fst (windows_branch f (sint (inspect_major_version f))
        (sint (inspect_minor_version f))
        (g @ [Get_type, Get_distro, Get_major_version, Get_minor_version])) = Inl MissingFacts"
      by (auto simp add: windows_branch_def accessor_defs split: option.split)
    then show ?thesis by (simp add: osinfo_windows [OF w(1,2)])
  qed
  then show ?thesis by simp
qed

theorem missing_facts_fail_witness:
  "fst (guestfs_impl_inspect_get_osinfo
          ((linux_facts ''fedora'' 38 0)\<lparr>inspect_distro := None\<rparr>) []) = Inl MissingFacts \<and>
   fst (guestfs_impl_inspect_get_osinfo
          ((windows_facts 10 0 ''Windows 10 Pro'' ''Client'' None)\<lparr>inspect_product_variant := None\<rparr>) [])
     = Inl MissingFacts"
  using missing_facts_fail [of "(linux_facts ''fedora'' 38 0)\<lparr>inspect_distro := None\<rparr>" "[]"]
        missing_facts_fail [of "(windows_facts 10 0 ''Windows 10 Pro'' ''Client'' None)\<lparr>inspect_product_variant := None\<rparr>" "[]"]
  by (simp add: linux_facts_def windows_facts_def)

text \<open>
  C5. For every linux fact bundle with distro \<open>sles\<close>: no rule of the Linux table
  matches, the base is \<open>sle\<close> from major version 15 on and \<open>sles\<close> below, and the
  result is the base and the major version, followed by \<open>sp\<close> and the minor version
  unless the minor version is 0.
\<close>

theorem sles_naming:
  assumes "inspect_type f = Some ''linux''" "inspect_distro f = Some ''sles''"
    "major = sint (inspect_major_version f)" "minor = sint (inspect_minor_version f)"
  shows "linux_scan linux_map ''sles'' major minor = None \<and>
         fst (guestfs_impl_inspect_get_osinfo f g) =
           Inr ((if major \<ge> 15 then ''sle'' else ''sles'') @ fmt_d major @
                (if minor = 0 then [] else ''sp'' @ fmt_d minor))"
  using assms(3,4)
  by (simp add: osinfo_linux [OF assms(1,2)] linux_branch_def linux_scan_sles)

theorem sles_naming_witness:
  "fst (guestfs_impl_inspect_get_osinfo (linux_facts ''sles'' 14 4) []) = Inr ''sles14sp4'' \<and>
   fst (guestfs_impl_inspect_get_osinfo (linux_facts ''sles'' 15 0) []) = Inr ''sle15'' \<and>
   fst (guestfs_impl_inspect_get_osinfo (linux_facts ''sles'' 15 3) []) = Inr ''sle15sp3''"
proof -
  have t: "inspect_type (linux_facts ''sles'' ma mi) = Some ''linux''"
    and d: "inspect_distro (linux_facts ''sles'' ma mi) = Some ''sles''"
    and v: "sint (inspect_major_version (linux_facts ''sles'' ma mi)) = sint ma"
           "sint (inspect_minor_version (linux_facts ''sles'' ma mi)) = sint mi" for ma mi
    by (simp_all add: linux_facts_def)
  have n: "fmt_d 14 = ''14''" "fmt_d 15 = ''15''" "fmt_d 4 = ''4''" "fmt_d 3 = ''3''"
    by (simp_all add: fmt_d_def dec_nat.simps digit_char_def)
  from sles_naming [OF t d refl refl, of 14 4 "[]"] sles_naming [OF t d refl refl, of 15 0 "[]"]
       sles_naming [OF t d refl refl, of 15 3 "[]"]
  show ?thesis unfolding v by (simp add: n)
qed

text \<open>
  C6. For every linux fact bundle the first rule of the table that matches decides the
  result, where a rule matches when the distro is the rule's distro and the rule's minimal
  major version is \<open>-1\<close> (any) or at most the major version: if rule \<open>i\<close> matches and
  no rule before it does, the result is rendered from rule \<open>i\<close>. The worked examples are
  altlinux 8.0, decided by the rule with minimal major version 8, and altlinux 5.1, decided
  by the rule for any version after it.
\<close>

theorem linux_first_match_wins:
  assumes "inspect_type f = Some ''linux''" "inspect_distro f = Some distro"
    and "major = sint (inspect_major_version f)" "minor = sint (inspect_minor_version f)"
    and "i < length linux_map"
    and "distro = lr_distro (linux_map ! i) \<and>
         (lr_min_major (linux_map ! i) = - 1 \<or> major \<ge> lr_min_major (linux_map ! i))"
    and "\<forall>j<i. \<not> (distro = lr_distro (linux_map ! j) \<and>
         (lr_min_major (linux_map ! j) = - 1 \<or> major \<ge> lr_min_major (linux_map ! j)))"
  shows "fst (guestfs_impl_inspect_get_osinfo f g) =
           Inr (case lr_fmt (linux_map ! i) of
                  Some fmt \<Rightarrow> safe_asprintf fmt [ArgStr distro, ArgInt major, ArgInt minor]
                | None \<Rightarrow> distro)"
proof -
  from assms(5) have le: "i \<le> length linux_map" by simp
  from assms(7) have "\<forall>r \<in> set (take i linux_map). \<not> linux_rule_matches r distro major"
    unfolding linux_rule_matches_def
    using all_less_take [OF le, of "\<lambda>r. \<not> (distro = lr_distro r \<and>
         (lr_min_major r = - 1 \<or> major \<ge> lr_min_major r))"] by blast
  moreover from assms(6) have "linux_rule_matches (linux_map ! i) distro major"
    by (simp add: linux_rule_matches_def)
  ultimately have "linux_scan linux_map distro major minor =
      Some (linux_rule_result (linux_map ! i) distro major minor)"
    using assms(5) by (intro linux_scan_first) simp_all
  then show ?thesis
    unfolding assms(3,4)
    by (simp add: osinfo_linux [OF assms(1,2)] linux_branch_def linux_rule_result_def)
qed

theorem linux_first_match_wins_witness:
  "fst (guestfs_impl_inspect_get_osinfo (linux_facts ''altlinux'' 8 0) []) = Inr ''altlinux8.0'' \<and>
   lr_min_major (linux_map ! 12) = 8 \<and>
   fst (guestfs_impl_inspect_get_osinfo (linux_facts ''altlinux'' 5 1) []) = Inr ''altlinux5.1'' \<and>
   lr_min_major (linux_map ! 13) = - 1"
proof -
  have t: "inspect_type (linux_facts ''altlinux'' ma mi) = Some ''linux''"
    and d: "inspect_distro (linux_facts ''altlinux'' ma mi) = Some ''altlinux''" for ma mi
    by (simp_all add: linux_facts_def)
  have v: "8 = sint (inspect_major_version (linux_facts ''altlinux'' 8 0))"
          "0 = sint (inspect_minor_version (linux_facts ''altlinux'' 8 0))"
          "5 = sint (inspect_major_version (linux_facts ''altlinux'' 5 1))"
          "1 = sint (inspect_minor_version (linux_facts ''altlinux'' 5 1))"
    by (simp_all add: linux_facts_def)
  have len: "length linux_map = 14"
    by (simp add: linux_map_def)
  have i: "12 < length linux_map" "13 < length linux_map"
    by (simp_all add: len)
  have r12: "linux_map ! 12 = linux_entry ''altlinux'' (Some [Conv_s, Conv_d, Lit ''.'', Conv_d]) 8"
    and r13: "linux_map ! 13 = linux_entry ''altlinux'' (Some [Conv_s, Conv_d, Lit ''.'', Conv_d]) (- 1)"
    by (simp_all add: linux_map_def linux_entry_def)
  have m12: "''altlinux'' = lr_distro (linux_map ! 12) \<and>
      (lr_min_major (linux_map ! 12) = - 1 \<or> 8 \<ge> lr_min_major (linux_map ! 12))"
    and m13: "''altlinux'' = lr_distro (linux_map ! 13) \<and>
      (lr_min_major (linux_map ! 13) = - 1 \<or> 5 \<ge> lr_min_major (linux_map ! 13))"
    unfolding r12 r13 by (simp_all add: linux_entry_def)
  have before12: "\<forall>r \<in> set (take 12 linux_map).
      \<not> (''altlinux'' = lr_distro r \<and> (lr_min_major r = - 1 \<or> 8 \<ge> lr_min_major r))"
    by (simp add: linux_map_def linux_entry_def)
  have before13: "\<forall>r \<in> set (take 13 linux_map).
      \<not> (''altlinux'' = lr_distro r \<and> (lr_min_major r = - 1 \<or> 5 \<ge> lr_min_major r))"
    by (simp add: linux_map_def linux_entry_def)
  have h12: "\<forall>j<12. \<not> (''altlinux'' = lr_distro (linux_map ! j) \<and>
         (lr_min_major (linux_map ! j) = - 1 \<or> 8 \<ge> lr_min_major (linux_map ! j)))"
    by (rule iffD2 [OF all_less_take [where P = "\<lambda>r. \<not> (''altlinux'' = lr_distro r \<and>
          (lr_min_major r = - 1 \<or> 8 \<ge> lr_min_major r))"]])
       (simp add: len, rule before12)
  have h13: "\<forall>j<13. \<not> (''altlinux'' = lr_distro (linux_map ! j) \<and>
         (lr_min_major (linux_map ! j) = - 1 \<or> 5 \<ge> lr_min_major (linux_map ! j)))"
    by (rule iffD2 [OF all_less_take [where P = "\<lambda>r. \<not> (''altlinux'' = lr_distro r \<and>
          (lr_min_major r = - 1 \<or> 5 \<ge> lr_min_major r))"]])
       (simp add: len, rule before13)
  have n: "fmt_d 8 = ''8''" "fmt_d 0 = ''0''" "fmt_d 5 = ''5''" "fmt_d 1 = ''1''"
    by (simp_all add: fmt_d_def dec_nat.simps digit_char_def)
  have a: "fst (guestfs_impl_inspect_get_osinfo (linux_facts ''altlinux'' 8 0) []) = Inr ''altlinux8.0''"
    unfolding linux_first_match_wins [OF t d v(1,2) i(1) m12 h12] r12
    by (simp add: linux_entry_def n)
  have b: "fst (guestfs_impl_inspect_get_osinfo (linux_facts ''altlinux'' 5 1) []) = Inr ''altlinux5.1''"
    unfolding linux_first_match_wins [OF t d v(3,4) i(2) m13 h13] r13
    by (simp add: linux_entry_def n)
  have c: "lr_min_major (linux_map ! 12) = 8" "lr_min_major (linux_map ! 13) = - 1"
    unfolding r12 r13 by (simp_all add: linux_entry_def)
  show ?thesis using a b c by blast
qed

text \<open>
  C7, as stated, fails for a negative version number: the code asks for a major or minor
  version greater than 0, not different from 0. With major version \<open>-1\<close> and minor
  version 0 an unlisted distro resolves to \<open>unknown\<close>.
\<close>

theorem linux_fallback_counterexample:
  "inspect_type (linux_facts ''mysterydistro'' (- 1) 0) = Some ''linux'' \<and>
   linux_scan linux_map ''mysterydistro'' (- 1) 0 = None \<and>
   sint (inspect_major_version (linux_facts ''mysterydistro'' (- 1) 0)) \<noteq> 0 \<and>
   fst (guestfs_impl_inspect_get_osinfo (linux_facts ''mysterydistro'' (- 1) 0) []) = Inr ''unknown''"
proof -
  have s: "linux_scan linux_map ''mysterydistro'' (- 1) 0 = None"
    by (simp add: linux_map_def linux_entry_def linux_rule_matches_def)
  show ?thesis
    by (simp add: s osinfo_linux [of _ "''mysterydistro''"] linux_branch_def linux_facts_def)
qed

text \<open>
  C7 (amended). For every linux fact bundle where no rule of the Linux table matches and
  the distro is not \<open>sles\<close>: if the distro is not \<open>unknown\<close> and the major or the minor
  version is greater than 0, the result is the distro, the major version, a dot and the
  minor version; otherwise it is \<open>unknown\<close>.
\<close>

theorem linux_fallback:
  assumes "inspect_type f = Some ''linux''" "inspect_distro f = Some distro"
    and "major = sint (inspect_major_version f)" "minor = sint (inspect_minor_version f)"
    and "\<forall>r \<in> set linux_map. \<not> (distro = lr_distro r \<and>
           (lr_min_major r = - 1 \<or> major \<ge> lr_min_major r))"
    and "distro \<noteq> ''sles''"
  shows "fst (guestfs_impl_inspect_get_osinfo f g) =
           (if distro \<noteq> ''unknown'' \<and> (major > 0 \<or> minor > 0)
            then Inr (distro @ fmt_d major @ ''.'' @ fmt_d minor)
            else Inr ''unknown'')"
proof -
  from assms(5) have "linux_scan linux_map distro major minor = None"
    by (simp add: linux_scan_none linux_rule_matches_def)
  then show ?thesis
    using assms(3,4,6)
    by (simp add: osinfo_linux [OF assms(1,2)] linux_branch_def)
qed

theorem linux_fallback_witness:
  "fst (guestfs_impl_inspect_get_osinfo (linux_facts ''mysterydistro'' 3 1) []) = Inr ''mysterydistro3.1'' \<and>
   fst (guestfs_impl_inspect_get_osinfo (linux_facts ''mysterydistro'' 0 0) []) = Inr ''unknown''"
proof -
  have t: "inspect_type (linux_facts ''mysterydistro'' ma mi) = Some ''linux''"
    and d: "inspect_distro (linux_facts ''mysterydistro'' ma mi) = Some ''mysterydistro''"
    and v: "sint (inspect_major_version (linux_facts ''mysterydistro'' ma mi)) = sint ma"
           "sint (inspect_minor_version (linux_facts ''mysterydistro'' ma mi)) = sint mi" for ma mi
    by (simp_all add: linux_facts_def)
  have no: "\<forall>r \<in> set linux_map. \<not> (''mysterydistro'' = lr_distro r \<and>
           (lr_min_major r = - 1 \<or> ma \<ge> lr_min_major r))" for ma
    by (simp add: linux_map_def linux_entry_def)
  have n: "fmt_d 3 = ''3''" "fmt_d 1 = ''1''"
    by (simp_all add: fmt_d_def dec_nat.simps digit_char_def)
  from linux_fallback [OF t d refl refl no, of 3 1 "[]"] linux_fallback [OF t d refl refl no, of 0 0 "[]"]
  show ?thesis unfolding v by (simp add: n)
qed

text \<open>
  C8. For every windows fact bundle with version 10.0 and a product variant that contains
  \<open>Server\<close>: a rule of the Windows table matches, the result is one of \<open>win2k25\<close>,
  \<open>win2k22\<close>, \<open>win2k19\<close>, \<open>win2k16\<close>, the calls made are the six accessors up to
  the product variant, so the build id accessor is not called, and the result is the same
  whatever the build id and the parser are.
\<close>

theorem win10_server_skips_build_id:
  assumes "inspect_type f = Some ''windows''" "inspect_distro f = Some distro"
    "inspect_product_name f = Some name" "inspect_product_variant f = Some variant"
    "sint (inspect_major_version f) = 10" "sint (inspect_minor_version f) = 0"
    "strstr variant ''Server''"
  shows "win_scan win_map 10 0 variant name \<noteq> None \<and>
         fst (guestfs_impl_inspect_get_osinfo f g) \<in>
           {Inr ''win2k25'', Inr ''win2k22'', Inr ''win2k19'', Inr ''win2k16''} \<and>
         snd (guestfs_impl_inspect_get_osinfo f g) =
           g @ [Get_type, Get_distro, Get_major_version, Get_minor_version,
                Get_product_name, Get_product_variant] \<and>
         Get_build_id \<notin> set (snd (guestfs_impl_inspect_get_osinfo f [])) \<and>
         guestfs_impl_inspect_get_osinfo (f\<lparr>inspect_build_id := b, parse_unsigned_int := p\<rparr>) g =
           guestfs_impl_inspect_get_osinfo f g"
proof -
  let ?f' = "f\<lparr>inspect_build_id := b, parse_unsigned_int := p\<rparr>"
  have r: "guestfs_impl_inspect_get_osinfo f h =
      (Inr (if strstr name ''2025'' then ''win2k25''
              else if strstr name ''2022'' then ''win2k22''
              else if strstr name ''2019'' then ''win2k19'' else ''win2k16''),
       h @ [Get_type, Get_distro, Get_major_version, Get_minor_version,
                Get_product_name, Get_product_variant])" for h
    using assms(5-7)
    by (simp add: osinfo_windows [OF assms(1,2)] windows_branch_facts [OF assms(3,4)] win_scan_10_0)
  have a': "inspect_type ?f' = Some ''windows''" "inspect_distro ?f' = Some distro"
    "inspect_product_name ?f' = Some name" "inspect_product_variant ?f' = Some variant"
    using assms(1-4) by simp_all
  have r': "guestfs_impl_inspect_get_osinfo ?f' g =
      (Inr (if strstr name ''2025'' then ''win2k25''
              else if strstr name ''2022'' then ''win2k22''
              else if strstr name ''2019'' then ''win2k19'' else ''win2k16''),
       g @ [Get_type, Get_distro, Get_major_version, Get_minor_version,
                Get_product_name, Get_product_variant])"
    using assms(5-7)
    by (simp add: osinfo_windows [OF a'(1,2)] windows_branch_facts [OF a'(3,4)] win_scan_10_0)
  show ?thesis
    unfolding r r' using assms(7) by (simp add: win_scan_10_0)
qed

theorem win10_server_skips_build_id_witness:
  "guestfs_impl_inspect_get_osinfo (windows_facts 10 0 ''Windows Server 2022 Standard'' ''Server'' None) [] =
    (Inr ''win2k22'', [Get_type, Get_distro, Get_major_version, Get_minor_version,
                Get_product_name, Get_product_variant]) \<and>
   guestfs_impl_inspect_get_osinfo (windows_facts 10 0 ''Windows Server 2022 Standard'' ''Server'' (Some ''x'')) [] =
   guestfs_impl_inspect_get_osinfo (windows_facts 10 0 ''Windows Server 2022 Standard'' ''Server'' None) []"
proof -
  have s: "strstr ''Server'' ''Server''" by simp
  have w: "win_scan win_map 10 0 ''Server'' ''Windows Server 2022 Standard'' = Some ''win2k22''"
    by (simp add: win_scan_10_0)
  have u: "(windows_facts 10 0 ''Windows Server 2022 Standard'' ''Server'' None)
             \<lparr>inspect_build_id := Some ''x'', parse_unsigned_int := example_parse\<rparr> =
           windows_facts 10 0 ''Windows Server 2022 Standard'' ''Server'' (Some ''x'')"
    by (simp add: windows_facts_def)
  from win10_server_skips_build_id [where f = "windows_facts 10 0 ''Windows Server 2022 Standard'' ''Server'' None"
         and distro = "''windows''" and name = "''Windows Server 2022 Standard''"
         and variant = "''Server''" and g = "[]" and b = "Some ''x''" and p = example_parse]
  show ?thesis
    unfolding u
    by (simp add: windows_facts_def osinfo_windows [of _ "''windows''"]
          windows_branch_facts [of _ "''Windows Server 2022 Standard''" "''Server''"] w)
qed

text \<open>
  C9. For every fact bundle whose type is not \<open>windows\<close>, the result and the calls made
  do not depend on the product name, the product variant and the build id, and none of the
  three accessors is called.
\<close>

theorem non_windows_ignores_product_facts:
  assumes "inspect_type f \<noteq> Some ''windows''"
  shows "guestfs_impl_inspect_get_osinfo
           (f\<lparr>inspect_product_name := n, inspect_product_variant := v, inspect_build_id := b\<rparr>) g =
         guestfs_impl_inspect_get_osinfo f g \<and>
         set (snd (guestfs_impl_inspect_get_osinfo f [])) \<inter>
           {Get_product_name, Get_product_variant, Get_build_id} = {}"
proof -
  let ?f' = "f\<lparr>inspect_product_name := n, inspect_product_variant := v, inspect_build_id := b\<rparr>"
  show ?thesis
  proof (cases "inspect_type f")
    case None
    then have "inspect_type ?f' = None" by simp
    with None show ?thesis by (simp add: osinfo_no_type)
  next
    case type: (Some type)
    show ?thesis
    proof (cases "inspect_distro f")
      case None
      then have "inspect_distro ?f' = None" by simp
      with None show ?thesis by (simp add: osinfo_no_distro)
    next
      case distro: (Some distro)
      from type assms have ne: "type \<noteq> ''windows''" by simp
      have t': "inspect_type ?f' = Some type" and d': "inspect_distro ?f' = Some distro"
        using type distro by simp_all
      show ?thesis
        unfolding osinfo_other [OF type distro ne] osinfo_other [OF t' d' ne]
        by simp
    qed
  qed
qed

theorem non_windows_ignores_product_facts_witness:
  "guestfs_impl_inspect_get_osinfo
     ((linux_facts ''fedora'' 38 0)\<lparr>inspect_product_name := Some ''Windows 10 Pro'',
        inspect_product_variant := Some ''Client'', inspect_build_id := Some ''19045''\<rparr>) [] =
   guestfs_impl_inspect_get_osinfo (linux_facts ''fedora'' 38 0) [] \<and>
   set (snd (guestfs_impl_inspect_get_osinfo (linux_facts ''fedora'' 38 0) [])) \<inter>
     {Get_product_name, Get_product_variant, Get_build_id} = {}"
proof -
  have "inspect_type (linux_facts ''fedora'' 38 0) \<noteq> Some ''windows''"
    by (simp add: linux_facts_def)
  from non_windows_ignores_product_facts [OF this] show ?thesis by blast
qed

text \<open>
  C10. For every linux fact bundle with distro \<open>centos\<close> and major version 7 the
  result is \<open>centos7.0\<close>, whatever the minor version is.
\<close>

theorem centos_7_minor_discarded:
  assumes "inspect_type f = Some ''linux''" "inspect_distro f = Some ''centos''"
    "sint (inspect_major_version f) = 7"
  shows "fst (guestfs_impl_inspect_get_osinfo f g) = Inr ''centos7.0''"
  using assms(3)
  by (simp add: osinfo_linux [OF assms(1,2)] linux_branch_def linux_scan_centos_7)

theorem centos_7_minor_discarded_witness:
  "fst (guestfs_impl_inspect_get_osinfo (linux_facts ''centos'' 7 9) []) = Inr ''centos7.0''"
  using centos_7_minor_discarded [of "linux_facts ''centos'' 7 9" "[]"]
  by (simp add: linux_facts_def)

end
